theory Spec2Isabelle
  imports Complex_Main "HOL-Library.Char_ord" "HOL-Library.List_Lexorder"
    "HOL-Library.Log_Nat" "HOL-Library.State_Monad"
begin

section \<open>Survey analytics: the data model\<close>

text \<open>
  The program is \<^verbatim>\<open>src/utils.py\<close>: a loader and a handful of aggregators over a
  pandas table of survey responses. The table is modelled as the list of its rows, in
  order; a row is a record with one field per column that the aggregators read.

  Numbers: pandas computes in binary64 floating point. A finite value is modelled by
  the rational number it stands for, next to the special values \<open>NaN\<close> and the
  infinities. The percentages of the NPS distribution are modelled by their exact
  values, so a statement about them is about the number that the floating-point
  result approximates. The NPS score and the monthly means are rounded to a decimal
  place, a step whose result can turn on the last bit of its argument; they are
  modelled with every operation rounded to binary64, as the program performs it.
\<close>

datatype float64 = Fin rat | PosInf | NegInf | NaN

text \<open>A cell of a column read from the CSV file: a number, a text, or missing.\<close>

datatype cell = Num rat | Str string | NA

text \<open>The seven rating columns (\<^verbatim>\<open>rating_columns\<close>, lines 18-20).\<close>

datatype rating_column =
    Ambience_And_Atmosphere
  | Curriculum_and_Activities
  | Environment_And_Facilities
  | Information_and_Experience
  | Questions
  | Nutritious_Meals
  | Value_For_Money

text \<open>
  A row as \<^verbatim>\<open>read_csv\<close> gives it. \<open>rating c\<close> is the cell of rating column \<open>c\<close>;
  \<open>None\<close> is the missing value of a column. The three date columns and the city,
  which none of the functions below reads, are left out.
\<close>

record survey_row =
  NPS :: "rat option"
  NPS_Label :: "string option"
  rating :: "rating_column \<Rightarrow> cell"
  NPS_Feedback_Categories :: "string option"
  Improvement_Feedback_Categories :: "string option"
  Response_Month :: "string option"

text \<open>
  A row after \<^verbatim>\<open>load_and_process_data\<close>: \<open>rating_Score c\<close> is the cell of the
  added column \<^verbatim>\<open>f'{c}_Score'\<close>.
\<close>

record scored_row = survey_row +
  rating_Score :: "rating_column \<Rightarrow> rat option"

type_synonym dataframe = "scored_row list"


section \<open>Floating-point operations the aggregators use\<close>

text \<open>
  \<^verbatim>\<open>promoters / total\<close> divides a numpy integer by a Python integer: numpy's true
  division, which gives \<open>nan\<close> for \<open>0 / 0\<close> and \<open>inf\<close> for \<open>n / 0\<close> (with a warning),
  and does not raise.
\<close>

definition np_true_divide :: "nat \<Rightarrow> nat \<Rightarrow> float64" where
  "np_true_divide a b =
     (if b = 0 then (if a = 0 then NaN else PosInf) else Fin (of_nat a / of_nat b))"

text \<open>Multiplication by a finite constant and subtraction, without rounding.\<close>

fun f_scale :: "float64 \<Rightarrow> rat \<Rightarrow> float64" where
  "f_scale (Fin x) c = Fin (x * c)"
| "f_scale PosInf c = (if 0 < c then PosInf else if c < 0 then NegInf else NaN)"
| "f_scale NegInf c = (if 0 < c then NegInf else if c < 0 then PosInf else NaN)"
| "f_scale NaN c = NaN"

fun f_minus :: "float64 \<Rightarrow> float64 \<Rightarrow> float64" where
  "f_minus (Fin x) (Fin y) = Fin (x - y)"
| "f_minus NaN _ = NaN"
| "f_minus _ NaN = NaN"
| "f_minus PosInf PosInf = NaN"
| "f_minus NegInf NegInf = NaN"
| "f_minus PosInf _ = PosInf"
| "f_minus NegInf _ = NegInf"
| "f_minus (Fin x) PosInf = NegInf"
| "f_minus (Fin x) NegInf = PosInf"

text \<open>Rounding to the nearest integer, a tie to the even one (\<^verbatim>\<open>rint\<close>).\<close>

definition rint :: "rat \<Rightarrow> int" where
  "rint x =
     (let f = \<lfloor>x\<rfloor>; d = x - of_int f
      in if d < 1 / 2 then f else if 1 / 2 < d then f + 1 else if even f then f else f + 1)"

text \<open>
  Rounding to binary64. \<open>ilog2 x\<close> is the exponent \<open>e\<close> with \<open>2 ^ e \<le> \<bar>x\<bar> < 2 ^ (e + 1)\<close>,
  computed from the bit lengths of numerator and denominator. A binary64 number near
  \<open>x\<close> is a multiple of \<open>2 ^ (e - 52)\<close>, and of \<open>2 ^ - 1074\<close> in the subnormal range;
  \<open>binary64 x\<close> is the nearest one, a tie going to the even multiple, and an infinity
  when that is \<open>2 ^ 1024\<close> or more in size. The sign of zero is not modelled.
\<close>

definition ilog2 :: "rat \<Rightarrow> int" where
  "ilog2 x =
     (let (a, b) = quotient_of \<bar>x\<bar>; d = bitlen a - bitlen b
      in if 2 powi d \<le> \<bar>x\<bar> then d else d - 1)"

definition binary64 :: "rat \<Rightarrow> float64" where
  "binary64 x =
     (if x = 0 then Fin 0
      else let q = max (ilog2 x - 52) (- 1074);
               r = of_int (rint (x / 2 powi q)) * 2 powi q
           in if 2 powi 1024 \<le> \<bar>r\<bar> then (if 0 < x then PosInf else NegInf) else Fin r)"

fun round64 :: "float64 \<Rightarrow> float64" where
  "round64 (Fin x) = binary64 x"
| "round64 v = v"

text \<open>
  The binary64 operations: the exact result, rounded. The constant of \<open>d_scale\<close> is a
  number that binary64 holds exactly (here 10, 100 and powers of 10).
\<close>

definition d_minus :: "float64 \<Rightarrow> float64 \<Rightarrow> float64" where
  "d_minus a b = round64 (f_minus a b)"

definition d_scale :: "float64 \<Rightarrow> rat \<Rightarrow> float64" where
  "d_scale a c = round64 (f_scale a c)"

text \<open>
  \<^verbatim>\<open>round(x, k)\<close> on a numpy float and \<^verbatim>\<open>DataFrame.round(k)\<close>, as numpy computes it:
  multiply by \<open>10 ^ k\<close>, round to the nearest integer, divide by \<open>10 ^ k\<close>, each of the
  three a binary64 operation. \<open>nan\<close> and the infinities stay what they are.
\<close>

definition np_round :: "float64 \<Rightarrow> nat \<Rightarrow> float64" where
  "np_round v k =
     (case d_scale v (10 ^ k) of
        Fin y \<Rightarrow> binary64 (of_int (rint y) / 10 ^ k)
      | w \<Rightarrow> w)"


section \<open>NPS distribution and NPS score\<close>

text \<open>\<^verbatim>\<open>(df['NPS Label'] == label).sum()\<close>: a missing label equals no text.\<close>

definition label_sum :: "string \<Rightarrow> dataframe \<Rightarrow> nat" where
  "label_sum label df = length (filter (\<lambda>r. NPS_Label r = Some label) df)"

text \<open>
  \<^verbatim>\<open>(df['NPS Label'] == label).mean()\<close>: the mean of a Boolean column, the number of
  its true entries divided in binary64 by its length (both are below \<open>2 ^ 53\<close> and so
  exact as binary64 numbers); \<open>nan\<close> for the empty column.
\<close>

definition label_mean :: "string \<Rightarrow> dataframe \<Rightarrow> float64" where
  "label_mean label df =
     (if df = [] then NaN else binary64 (of_nat (label_sum label df) / of_nat (length df)))"

record nps_distribution =
  Promoters :: float64
  Passives :: float64
  Detractors :: float64

text \<open>\<^verbatim>\<open>get_nps_distribution\<close>, lines 36-47.\<close>

definition get_nps_distribution :: "dataframe \<Rightarrow> nps_distribution" where
  "get_nps_distribution df =
     (let total = length df;
          promoters = label_sum ''Promoter'' df;
          passives = label_sum ''Neutral'' df;
          detractors = label_sum ''Detractor'' df
      in \<lparr>Promoters = f_scale (np_true_divide promoters total) 100,
          Passives = f_scale (np_true_divide passives total) 100,
          Detractors = f_scale (np_true_divide detractors total) 100\<rparr>)"

text \<open>\<^verbatim>\<open>calculate_nps_score\<close>, lines 218-223.\<close>

definition calculate_nps_score :: "dataframe \<Rightarrow> float64" where
  "calculate_nps_score df =
     (let promoters = label_mean ''Promoter'' df;
          detractors = label_mean ''Detractor'' df;
          nps_score = d_scale (d_minus promoters detractors) 100
      in np_round nps_score 1)"


section \<open>Python string operations\<close>

text \<open>
  Strings are lists of characters. The operations below are those of Python's \<^verbatim>\<open>str\<close>
  on ASCII text: \<^verbatim>\<open>isspace\<close> holds of the codes 9 to 13 and 28 to 32, and
  \<^verbatim>\<open>lower\<close> changes the letters A to Z only.
\<close>

definition is_space :: "char \<Rightarrow> bool" where
  "is_space c = (let n = (of_char c :: nat) in (9 \<le> n \<and> n \<le> 13) \<or> (28 \<le> n \<and> n \<le> 32))"

definition double_quote :: char where
  "double_quote = CHR 0x22"

text \<open>\<^verbatim>\<open>s.strip(chars)\<close>: drop the characters of the class from both ends.\<close>

definition strip_chars :: "(char \<Rightarrow> bool) \<Rightarrow> string \<Rightarrow> string" where
  "strip_chars P s = rev (dropWhile P (rev (dropWhile P s)))"

text \<open>\<^verbatim>\<open>s.strip()\<close> and \<^verbatim>\<open>s.strip('"')\<close>.\<close>

definition strip :: "string \<Rightarrow> string" where
  "strip s = strip_chars is_space s"

definition strip_quotes :: "string \<Rightarrow> string" where
  "strip_quotes s = strip_chars (\<lambda>c. c = double_quote) s"

text \<open>\<^verbatim>\<open>s.split(sep)\<close> for a one-character separator: never the empty list.\<close>

fun split :: "char \<Rightarrow> string \<Rightarrow> string list" where
  "split sep [] = [[]]"
| "split sep (c # cs) =
     (if c = sep then [] # split sep cs
      else (case split sep cs of [] \<Rightarrow> [[c]] | w # ws \<Rightarrow> (c # w) # ws))"

definition lower_char :: "char \<Rightarrow> char" where
  "lower_char c =
     (let n = (of_char c :: nat) in if 65 \<le> n \<and> n \<le> 90 then char_of (n + 32) else c)"

definition lower :: "string \<Rightarrow> string" where
  "lower s = map lower_char s"

text \<open>\<^verbatim>\<open>column.fillna('')\<close> on one cell of a text column.\<close>

definition fillna :: "string option \<Rightarrow> string" where
  "fillna v = (case v of None \<Rightarrow> [] | Some s \<Rightarrow> s)"

text \<open>
  \<^verbatim>\<open>pd.Series(tokens).value_counts()\<close>: each distinct token with the number of its
  occurrences, by descending count; tokens of equal count are kept in the order of their
  first occurrence.
\<close>

definition value_counts :: "string list \<Rightarrow> (string \<times> nat) list" where
  "value_counts xs =
     sort_key (\<lambda>(t, n). - int n) (map (\<lambda>t. (t, count_list xs t)) (rev (remdups (rev xs))))"


section \<open>Loading: the rating scores\<close>

text \<open>\<^verbatim>\<open>rating_map\<close>, lines 22-28.\<close>

definition rating_map :: "string \<rightharpoonup> rat" where
  "rating_map =
     [''5. Strongly Agree'' \<mapsto> 5,
      ''4. Agree'' \<mapsto> 4,
      ''3. Neither Agree nor Disagree'' \<mapsto> 3,
      ''2. Disagree'' \<mapsto> 2,
      ''1. Strongly Disagree'' \<mapsto> 1]"

text \<open>
  \<^verbatim>\<open>column.map(d)\<close> on one cell, for a dictionary \<open>d\<close> with text keys: the value of
  the key, and the missing value for a cell that is no key of \<open>d\<close>.
\<close>

fun series_map :: "(string \<rightharpoonup> rat) \<Rightarrow> cell \<Rightarrow> rat option" where
  "series_map d (Str s) = d s"
| "series_map d (Num x) = None"
| "series_map d NA = None"

text \<open>
  \<^verbatim>\<open>load_and_process_data\<close>, lines 17-33, from the table that \<^verbatim>\<open>read_csv\<close> returns:
  the loop of lines 30-31 adds one score column for each rating column and changes
  no other cell.
\<close>

definition load_and_process_data :: "survey_row list \<Rightarrow> dataframe" where
  "load_and_process_data rows =
     map (\<lambda>r. \<lparr>NPS = NPS r, NPS_Label = NPS_Label r, rating = rating r,
               NPS_Feedback_Categories = NPS_Feedback_Categories r,
               Improvement_Feedback_Categories = Improvement_Feedback_Categories r,
               Response_Month = Response_Month r,
               rating_Score = (\<lambda>col. series_map rating_map (rating r col))\<rparr>) rows"


section \<open>Correlation heatmap: the columns that are correlated\<close>

datatype column = NPS_column | Rating_column rating_column | Score_column rating_column

text \<open>\<^verbatim>\<open>metrics\<close>, lines 66-68: the names of the rating columns themselves.\<close>

definition metrics :: "column list" where
  "metrics =
     [NPS_column, Rating_column Ambience_And_Atmosphere, Rating_column Curriculum_and_Activities,
      Rating_column Environment_And_Facilities, Rating_column Information_and_Experience,
      Rating_column Questions, Rating_column Nutritious_Meals, Rating_column Value_For_Money]"

text \<open>
  The columns that the specification names: the NPS value and the seven score columns.
\<close>

definition spec_score_metrics :: "column list" where
  "spec_score_metrics =
     [NPS_column, Score_column Ambience_And_Atmosphere, Score_column Curriculum_and_Activities,
      Score_column Environment_And_Facilities, Score_column Information_and_Experience,
      Score_column Questions, Score_column Nutritious_Meals, Score_column Value_For_Money]"

definition numeric_cell :: "rat option \<Rightarrow> cell" where
  "numeric_cell v = (case v of None \<Rightarrow> NA | Some x \<Rightarrow> Num x)"

fun cell_at :: "scored_row \<Rightarrow> column \<Rightarrow> cell" where
  "cell_at r NPS_column = numeric_cell (NPS r)"
| "cell_at r (Rating_column c) = rating r c"
| "cell_at r (Score_column c) = numeric_cell (rating_Score r c)"

text \<open>\<^verbatim>\<open>df[cols]\<close>: the rows cut down to the listed columns, in the listed order.\<close>

definition select_columns :: "dataframe \<Rightarrow> column list \<Rightarrow> cell list list" where
  "select_columns df cols = map (\<lambda>r. map (cell_at r) cols) df"

text \<open>
  \<^verbatim>\<open>df[metrics]\<close>, line 71: the table whose \<^verbatim>\<open>corr()\<close> the heatmap shows. The
  correlation itself is pandas' and is not modelled.
\<close>

definition correlation_input :: "dataframe \<Rightarrow> cell list list" where
  "correlation_input df = select_columns df metrics"


section \<open>Feedback categories and top concerns\<close>

text \<open>
  The comprehension of lines 110-113 over one (filled) column: rows that are the empty
  text are skipped; a piece is kept when it is not blank and its lower-case form is not
  \<^verbatim>\<open>nan\<close>; what is stored is the piece without surrounding double quotes.
\<close>

definition column_categories :: "string list \<Rightarrow> string list" where
  "column_categories col =
     concat (map (\<lambda>row.
       if row \<noteq> [] then
         map strip_quotes
           (filter (\<lambda>cat. strip cat \<noteq> [] \<and> lower cat \<noteq> ''nan'') (split CHR '','' row))
       else []) col)"

text \<open>
  The loop of lines 107-113. Line 109 assigns the filled column back into the table
  that the caller passed, so the function is modelled with the table as state: it
  returns the pooled tokens and the table as the call leaves it.
\<close>

definition pool_categories :: "dataframe \<Rightarrow> string list \<times> dataframe" where
  "pool_categories df =
     (let df1 = map (\<lambda>r. r\<lparr>NPS_Feedback_Categories :=
                              Some (fillna (NPS_Feedback_Categories r))\<rparr>) df;
          categories1 = column_categories (map (\<lambda>r. fillna (NPS_Feedback_Categories r)) df1);
          df2 = map (\<lambda>r. r\<lparr>Improvement_Feedback_Categories :=
                              Some (fillna (Improvement_Feedback_Categories r))\<rparr>) df1;
          categories2 =
            column_categories (map (\<lambda>r. fillna (Improvement_Feedback_Categories r)) df2)
      in (categories1 @ categories2, df2))"

text \<open>\<^verbatim>\<open>category_counts\<close> after line 118.\<close>

definition category_counts :: "dataframe \<Rightarrow> (string \<times> nat) list" where
  "category_counts df =
     filter (\<lambda>(t, n). t \<noteq> ''nan'') (value_counts (fst (pool_categories df)))"

text \<open>
  \<^verbatim>\<open>analyze_feedback_categories\<close>, lines 99-131: the bars of the chart (the first ten
  entries of the counts) and the table after the call.
\<close>

definition analyze_feedback_categories :: "dataframe \<Rightarrow> (string \<times> nat) list \<times> dataframe" where
  "analyze_feedback_categories df = (take 10 (category_counts df), snd (pool_categories df))"

text \<open>\<^verbatim>\<open>get_top_concerns\<close>, lines 226-234. The column is filled in a copy.\<close>

definition get_top_concerns :: "dataframe \<Rightarrow> (string \<times> nat) list" where
  "get_top_concerns df =
     (let all_concerns =
        concat (map (\<lambda>r.
          let x = strip_quotes (fillna (Improvement_Feedback_Categories r))
          in map (\<lambda>c. strip_quotes (strip c)) (filter (\<lambda>c. strip c \<noteq> []) (split CHR '','' x)))
          df)
      in value_counts all_concerns)"


section \<open>Monthly trends\<close>

datatype error = TypeError

text \<open>
  The mean of a numeric column skips missing values and is \<open>nan\<close> when nothing is left;
  otherwise it is the sum of the values divided in binary64 by their number (the sum
  is taken exactly: the survey values are small integers, whose sums binary64 holds
  exactly). The mean of a group of cells that holds a text is refused by pandas with
  an exception.
\<close>

definition mean :: "rat list \<Rightarrow> float64" where
  "mean xs = (if xs = [] then NaN else binary64 (sum_list xs / of_nat (length xs)))"

definition mean_numeric :: "rat option list \<Rightarrow> float64" where
  "mean_numeric col = mean (concat (map (\<lambda>v. case v of None \<Rightarrow> [] | Some x \<Rightarrow> [x]) col))"

fun is_text :: "cell \<Rightarrow> bool" where
  "is_text (Str s) = True"
| "is_text c = False"

definition mean_cells :: "cell list \<Rightarrow> error + float64" where
  "mean_cells col =
     (if list_ex is_text col then Inl TypeError
      else Inr (mean (concat (map (\<lambda>c. case c of Num x \<Rightarrow> [x] | _ \<Rightarrow> []) col))))"

record monthly_means =
  mean_NPS :: float64
  mean_Ambience_And_Atmosphere :: float64
  mean_Curriculum_and_Activities :: float64
  mean_Value_For_Money :: float64

text \<open>
  The group keys of \<^verbatim>\<open>df.groupby('Response Month (YYYY-MM)')\<close>: the distinct months,
  ascending; rows without a month belong to no group.
\<close>

definition group_keys :: "dataframe \<Rightarrow> string list" where
  "group_keys df =
     sort (remdups (concat (map (\<lambda>r. case Response_Month r of None \<Rightarrow> [] | Some m \<Rightarrow> [m]) df)))"

text \<open>The aggregation of lines 150-155 for one group, rounded to two places.\<close>

definition aggregate_group :: "dataframe \<Rightarrow> error + monthly_means" where
  "aggregate_group g =
     (case mean_cells (map (\<lambda>r. rating r Ambience_And_Atmosphere) g) of
        Inl e \<Rightarrow> Inl e
      | Inr a \<Rightarrow>
     (case mean_cells (map (\<lambda>r. rating r Curriculum_and_Activities) g) of
        Inl e \<Rightarrow> Inl e
      | Inr c \<Rightarrow>
     (case mean_cells (map (\<lambda>r. rating r Value_For_Money) g) of
        Inl e \<Rightarrow> Inl e
      | Inr v \<Rightarrow>
          Inr \<lparr>mean_NPS = np_round (mean_numeric (map NPS g)) 2,
               mean_Ambience_And_Atmosphere = np_round a 2,
               mean_Curriculum_and_Activities = np_round c 2,
               mean_Value_For_Money = np_round v 2\<rparr>)))"

fun aggregate_groups :: "dataframe \<Rightarrow> string list \<Rightarrow> error + (string \<times> monthly_means) list" where
  "aggregate_groups df [] = Inr []"
| "aggregate_groups df (k # ks) =
     (case aggregate_group (filter (\<lambda>r. Response_Month r = Some k) df) of
        Inl e \<Rightarrow> Inl e
      | Inr m \<Rightarrow>
          (case aggregate_groups df ks of Inl e \<Rightarrow> Inl e | Inr rest \<Rightarrow> Inr ((k, m) # rest)))"

text \<open>\<^verbatim>\<open>monthly_trends\<close> of \<^verbatim>\<open>create_monthly_trends\<close>, lines 147-155.\<close>

definition create_monthly_trends :: "dataframe \<Rightarrow> error + (string \<times> monthly_means) list" where
  "create_monthly_trends df = aggregate_groups df (group_keys df)"


section \<open>The aggregators as operations on the table\<close>

text \<open>
  A call of an aggregator receives the caller's table and can assign to it. To see
  what a call leaves of the table, each body is written once more as a sequence of
  operations on the table as state: \<open>len\<close>, \<open>column\<close>, \<open>columns\<close> and \<open>whole_table\<close> read
  it, \<open>assign_column\<close> is the assignment \<^verbatim>\<open>df[col] = values\<close>. Everything else
  in a body computes new values from what was read.
\<close>

definition len :: "(dataframe, nat) state" where
  "len = State (\<lambda>df. (length df, df))"

definition column :: "(scored_row \<Rightarrow> 'a) \<Rightarrow> (dataframe, 'a list) state" where
  "column field = State (\<lambda>df. (map field df, df))"

definition columns :: "column list \<Rightarrow> (dataframe, cell list list) state" where
  "columns cols = State (\<lambda>df. (select_columns df cols, df))"

definition whole_table :: "(dataframe, dataframe) state" where
  "whole_table = State (\<lambda>df. (df, df))"

definition assign_column ::
  "(scored_row \<Rightarrow> 'a \<Rightarrow> scored_row) \<Rightarrow> 'a list \<Rightarrow> (dataframe, unit) state" where
  "assign_column store values = State (\<lambda>df. ((), map (\<lambda>(r, v). store r v) (zip df values)))"

text \<open>\<^verbatim>\<open>get_nps_distribution\<close>, lines 36-47.\<close>

definition get_nps_distribution_body :: "(dataframe, nps_distribution) state" where
  "get_nps_distribution_body = do {
     total \<leftarrow> len;
     labels1 \<leftarrow> column NPS_Label;
     let promoters = length (filter (\<lambda>l. l = Some ''Promoter'') labels1);
     labels2 \<leftarrow> column NPS_Label;
     let passives = length (filter (\<lambda>l. l = Some ''Neutral'') labels2);
     labels3 \<leftarrow> column NPS_Label;
     let detractors = length (filter (\<lambda>l. l = Some ''Detractor'') labels3);
     State_Monad.return
       \<lparr>Promoters = f_scale (np_true_divide promoters total) 100,
        Passives = f_scale (np_true_divide passives total) 100,
        Detractors = f_scale (np_true_divide detractors total) 100\<rparr>
   }"

text \<open>
  \<^verbatim>\<open>create_nps_distribution_chart\<close>, lines 50-60: the labels and values of the pie.
\<close>

definition create_nps_distribution_chart_body ::
  "(dataframe, string list \<times> float64 list) state" where
  "create_nps_distribution_chart_body = do {
     dist \<leftarrow> get_nps_distribution_body;
     State_Monad.return
       ([''Promoters'', ''Passives'', ''Detractors''],
        [Promoters dist, Passives dist, Detractors dist])
   }"

text \<open>
  \<^verbatim>\<open>create_correlation_heatmap\<close>, lines 63-96. \<open>corr\<close> stands for pandas'
  \<^verbatim>\<open>DataFrame.corr\<close>, a function of the selected table.
\<close>

definition create_correlation_heatmap_body ::
  "(cell list list \<Rightarrow> 'm) \<Rightarrow> (dataframe, 'm) state" where
  "create_correlation_heatmap_body corr = do {
     selected \<leftarrow> columns metrics;
     let corr_matrix = corr selected;
     State_Monad.return corr_matrix
   }"

text \<open>\<^verbatim>\<open>analyze_feedback_categories\<close>, lines 99-131, with the two rounds of its loop.\<close>

definition analyze_feedback_categories_body :: "(dataframe, (string \<times> nat) list) state" where
  "analyze_feedback_categories_body = do {
     col1 \<leftarrow> column NPS_Feedback_Categories;
     assign_column (\<lambda>r v. r\<lparr>NPS_Feedback_Categories := v\<rparr>) (map (\<lambda>v. Some (fillna v)) col1);
     rows1 \<leftarrow> column NPS_Feedback_Categories;
     let categories1 = column_categories (map fillna rows1);
     col2 \<leftarrow> column Improvement_Feedback_Categories;
     assign_column (\<lambda>r v. r\<lparr>Improvement_Feedback_Categories := v\<rparr>)
       (map (\<lambda>v. Some (fillna v)) col2);
     rows2 \<leftarrow> column Improvement_Feedback_Categories;
     let categories2 = column_categories (map fillna rows2);
     let counts = value_counts (categories1 @ categories2);
     let counts = filter (\<lambda>(t, n). t \<noteq> ''nan'') counts;
     State_Monad.return (take 10 counts)
   }"

text \<open>
  \<^verbatim>\<open>calculate_weekly_response_rate\<close>, lines 134-144. \<open>resample\<close> stands for pandas'
  \<^verbatim>\<open>df.resample('W', on='Survey Response Date [GMT]').size()\<close>, a function of the
  table.
\<close>

definition calculate_weekly_response_rate_body ::
  "(dataframe \<Rightarrow> 'w) \<Rightarrow> (dataframe, 'w) state" where
  "calculate_weekly_response_rate_body resample = do {
     df \<leftarrow> whole_table;
     let weekly_counts = resample df;
     State_Monad.return weekly_counts
   }"

text \<open>\<^verbatim>\<open>create_monthly_trends\<close>, lines 147-215.\<close>

definition create_monthly_trends_body ::
  "(dataframe, error + (string \<times> monthly_means) list) state" where
  "create_monthly_trends_body = do {
     df \<leftarrow> whole_table;
     let monthly_trends = aggregate_groups df (group_keys df);
     State_Monad.return monthly_trends
   }"

text \<open>\<^verbatim>\<open>calculate_nps_score\<close>, lines 218-223.\<close>

definition series_mean :: "bool list \<Rightarrow> float64" where
  "series_mean bs =
     (if bs = [] then NaN else binary64 (of_nat (length (filter id bs)) / of_nat (length bs)))"

definition calculate_nps_score_body :: "(dataframe, float64) state" where
  "calculate_nps_score_body = do {
     labels1 \<leftarrow> column NPS_Label;
     let promoters = series_mean (map (\<lambda>l. l = Some ''Promoter'') labels1);
     labels2 \<leftarrow> column NPS_Label;
     let detractors = series_mean (map (\<lambda>l. l = Some ''Detractor'') labels2);
     let nps_score = d_scale (d_minus promoters detractors) 100;
     State_Monad.return (np_round nps_score 1)
   }"

text \<open>\<^verbatim>\<open>get_top_concerns\<close>, lines 226-234.\<close>

definition get_top_concerns_body :: "(dataframe, (string \<times> nat) list) state" where
  "get_top_concerns_body = do {
     col \<leftarrow> column Improvement_Feedback_Categories;
     let stripped = map (\<lambda>v. strip_quotes (fillna v)) col;
     let all_concerns =
       concat (map (\<lambda>x. map (\<lambda>c. strip_quotes (strip c))
                             (filter (\<lambda>c. strip c \<noteq> []) (split CHR '','' x))) stripped);
     let concern_counts = value_counts all_concerns;
     State_Monad.return concern_counts
   }"

text \<open>
  \<^verbatim>\<open>create_nps_trend\<close>, lines 237-247: \<^verbatim>\<open>calculate_nps_score\<close> is called on the table
  of each group, which is a table of its own.
\<close>

definition create_nps_trend_body :: "(dataframe, (string \<times> float64) list) state" where
  "create_nps_trend_body = do {
     df \<leftarrow> whole_table;
     let monthly_nps =
       map (\<lambda>k. (k, fst (run_state calculate_nps_score_body
                            (filter (\<lambda>r. Response_Month r = Some k) df))))
           (group_keys df);
     State_Monad.return monthly_nps
   }"

text \<open>\<^verbatim>\<open>create_satisfaction_heatmap\<close>, lines 250-275, with its loop over the metrics.\<close>

definition create_satisfaction_heatmap_body ::
  "(dataframe, (rating_column \<times> float64) list) state" where
  "create_satisfaction_heatmap_body =
     State_Monad.traverse_list
       (\<lambda>metric. do {
          scores \<leftarrow> column (\<lambda>r. rating_Score r metric);
          State_Monad.return (metric, mean_numeric scores)
        })
       [Ambience_And_Atmosphere, Curriculum_and_Activities, Environment_And_Facilities,
        Information_and_Experience, Questions, Nutritious_Meals, Value_For_Money]"

datatype aggregator =
    Get_nps_distribution
  | Create_nps_distribution_chart
  | Create_correlation_heatmap
  | Analyze_feedback_categories
  | Calculate_weekly_response_rate
  | Create_monthly_trends
  | Calculate_nps_score
  | Get_top_concerns
  | Create_nps_trend
  | Create_satisfaction_heatmap

text \<open>A call of an aggregator, its result dropped.\<close>

fun call ::
  "(cell list list \<Rightarrow> 'm) \<Rightarrow> (dataframe \<Rightarrow> 'w) \<Rightarrow> aggregator \<Rightarrow> (dataframe, unit) state" where
  "call corr resample Get_nps_distribution =
     do { _ \<leftarrow> get_nps_distribution_body; State_Monad.return () }"
| "call corr resample Create_nps_distribution_chart =
     do { _ \<leftarrow> create_nps_distribution_chart_body; State_Monad.return () }"
| "call corr resample Create_correlation_heatmap =
     do { _ \<leftarrow> create_correlation_heatmap_body corr; State_Monad.return () }"
| "call corr resample Analyze_feedback_categories =
     do { _ \<leftarrow> analyze_feedback_categories_body; State_Monad.return () }"
| "call corr resample Calculate_weekly_response_rate =
     do { _ \<leftarrow> calculate_weekly_response_rate_body resample; State_Monad.return () }"
| "call corr resample Create_monthly_trends =
     do { _ \<leftarrow> create_monthly_trends_body; State_Monad.return () }"
| "call corr resample Calculate_nps_score =
     do { _ \<leftarrow> calculate_nps_score_body; State_Monad.return () }"
| "call corr resample Get_top_concerns =
     do { _ \<leftarrow> get_top_concerns_body; State_Monad.return () }"
| "call corr resample Create_nps_trend =
     do { _ \<leftarrow> create_nps_trend_body; State_Monad.return () }"
| "call corr resample Create_satisfaction_heatmap =
     do { _ \<leftarrow> create_satisfaction_heatmap_body; State_Monad.return () }"

text \<open>The table that the caller holds after the call.\<close>

definition table_after ::
  "(cell list list \<Rightarrow> 'm) \<Rightarrow> (dataframe \<Rightarrow> 'w) \<Rightarrow> aggregator \<Rightarrow> dataframe \<Rightarrow> dataframe" where
  "table_after corr resample a df = snd (run_state (call corr resample a) df)"


section \<open>Example tables\<close>

text \<open>A row with every cell missing, and rows that differ from it in few cells.\<close>

definition blank_survey_row :: survey_row where
  "blank_survey_row =
     \<lparr>NPS = None, NPS_Label = None, rating = (\<lambda>c. NA),
      NPS_Feedback_Categories = None, Improvement_Feedback_Categories = None,
      Response_Month = None\<rparr>"

definition blank_row :: scored_row where
  "blank_row =
     \<lparr>NPS = None, NPS_Label = None, rating = (\<lambda>c. NA),
      NPS_Feedback_Categories = None, Improvement_Feedback_Categories = None,
      Response_Month = None, rating_Score = (\<lambda>c. None)\<rparr>"

definition labelled :: "string \<Rightarrow> scored_row" where
  "labelled l = blank_row\<lparr>NPS_Label := Some l\<rparr>"

text \<open>A response of one month with an NPS value and the same answer to every rating.\<close>

definition answered :: "string \<Rightarrow> rat \<Rightarrow> cell \<Rightarrow> survey_row" where
  "answered month n answer =
     blank_survey_row\<lparr>NPS := Some n, rating := (\<lambda>c. answer), Response_Month := Some month\<rparr>"

text \<open>A response with the two category fields given.\<close>

definition tagged :: "string option \<Rightarrow> string option \<Rightarrow> scored_row" where
  "tagged nps_tags improvement_tags =
     blank_row\<lparr>NPS_Feedback_Categories := nps_tags,
               Improvement_Feedback_Categories := improvement_tags\<rparr>"


section \<open>Properties of the NPS distribution\<close>

lemma label_sum_le: "label_sum l df \<le> length df"
  by (simp add: label_sum_def)

text \<open>Every row is a promoter, a passive, a detractor, or has none of the three labels.\<close>

lemma label_sum_three:
  "label_sum ''Promoter'' df + label_sum ''Neutral'' df + label_sum ''Detractor'' df
     + length (filter (\<lambda>r. NPS_Label r \<notin> {Some ''Promoter'', Some ''Neutral'', Some ''Detractor''}) df)
   = length df"
  by (induction df) (auto simp: label_sum_def)

lemma get_nps_distribution_nonempty:
  "df \<noteq> [] \<Longrightarrow> get_nps_distribution df =
     \<lparr>Promoters = Fin (100 * of_nat (label_sum ''Promoter'' df) / of_nat (length df)),
      Passives = Fin (100 * of_nat (label_sum ''Neutral'' df) / of_nat (length df)),
      Detractors = Fin (100 * of_nat (label_sum ''Detractor'' df) / of_nat (length df))\<rparr>"
  by (simp add: get_nps_distribution_def np_true_divide_def Let_def)

text \<open>
  Claim C10. On a table with at least one row, each percentage of the NPS distribution
  is 100 times the number of rows with exactly that label over the number of all rows;
  a row with none of the three labels is in the denominator and in no numerator, so
  the three percentages add up to less than 100 as soon as there is such a row.
\<close>

theorem nps_distribution_counts_unrecognized:
  assumes "df \<noteq> []"
  shows "\<exists>p q d.
           get_nps_distribution df = \<lparr>Promoters = Fin p, Passives = Fin q, Detractors = Fin d\<rparr>
         \<and> p = 100 * of_nat (length (filter (\<lambda>r. NPS_Label r = Some ''Promoter'') df))
                 / of_nat (length df)
         \<and> q = 100 * of_nat (length (filter (\<lambda>r. NPS_Label r = Some ''Neutral'') df))
                 / of_nat (length df)
         \<and> d = 100 * of_nat (length (filter (\<lambda>r. NPS_Label r = Some ''Detractor'') df))
                 / of_nat (length df)
         \<and> ((\<exists>r \<in> set df. NPS_Label r \<notin> {Some ''Promoter'', Some ''Neutral'', Some ''Detractor''})
              \<longrightarrow> p + q + d < 100)"
proof -
  let ?n = "length df"
  let ?P = "label_sum ''Promoter'' df" and ?Q = "label_sum ''Neutral'' df"
    and ?D = "label_sum ''Detractor'' df"
  let ?U = "length (filter (\<lambda>r. NPS_Label r \<notin> {Some ''Promoter'', Some ''Neutral'', Some ''Detractor''}) df)"
  have n: "0 < ?n" using assms by simp
  have sum: "?P + ?Q + ?D + ?U = ?n" by (rule label_sum_three)
  have less: "100 * rat_of_nat ?P / of_nat ?n + 100 * of_nat ?Q / of_nat ?n
      + 100 * of_nat ?D / of_nat ?n < 100"
    if "\<exists>r \<in> set df. NPS_Label r \<notin> {Some ''Promoter'', Some ''Neutral'', Some ''Detractor''}"
  proof -
    from that have "0 < ?U" by (simp add: filter_empty_conv)
    with sum have "?P + ?Q + ?D < ?n" by linarith
    then have "rat_of_nat (?P + ?Q + ?D) < of_nat ?n" by (simp only: of_nat_less_iff)
    then have "100 * rat_of_nat (?P + ?Q + ?D) / of_nat ?n < 100"
      using n by (simp add: divide_less_eq)
    then show ?thesis by (simp add: add_divide_distrib distrib_left)
  qed
  show ?thesis
    using get_nps_distribution_nonempty [OF assms] less
    by (simp add: label_sum_def)
qed

theorem nps_distribution_counts_unrecognized_witness:
  "[labelled ''Promoter'', blank_row] \<noteq> []
   \<and> (\<exists>p q d. get_nps_distribution [labelled ''Promoter'', blank_row]
          = \<lparr>Promoters = Fin p, Passives = Fin q, Detractors = Fin d\<rparr>
        \<and> p + q + d < 100)"
proof -
  have other: "\<exists>r \<in> set [labelled ''Promoter'', blank_row].
      NPS_Label r \<notin> {Some ''Promoter'', Some ''Neutral'', Some ''Detractor''}"
    by (simp add: labelled_def blank_row_def)
  show ?thesis
    using nps_distribution_counts_unrecognized [of "[labelled ''Promoter'', blank_row]"] other
    by blast
qed

text \<open>
  Claim C2. On a table with at least one row, every row of which carries one of the
  labels Promoter, Neutral, Detractor (the labels of a survey response record), the
  three percentages are each between 0 and 100 and add up to 100.
\<close>

theorem nps_distribution_percentages:
  assumes "df \<noteq> []"
    and "\<forall>r \<in> set df. NPS_Label r \<in> {Some ''Promoter'', Some ''Neutral'', Some ''Detractor''}"
  shows "\<exists>p q d.
           get_nps_distribution df = \<lparr>Promoters = Fin p, Passives = Fin q, Detractors = Fin d\<rparr>
         \<and> 0 \<le> p \<and> p \<le> 100 \<and> 0 \<le> q \<and> q \<le> 100 \<and> 0 \<le> d \<and> d \<le> 100
         \<and> p + q + d = 100"
proof -
  let ?n = "length df"
  let ?P = "label_sum ''Promoter'' df" and ?Q = "label_sum ''Neutral'' df"
    and ?D = "label_sum ''Detractor'' df"
  let ?U = "length (filter (\<lambda>r. NPS_Label r \<notin> {Some ''Promoter'', Some ''Neutral'', Some ''Detractor''}) df)"
  let ?pct = "\<lambda>k::nat. 100 * rat_of_nat k / of_nat ?n"
  have n: "0 < rat_of_nat ?n" using assms(1) by simp
  have sum: "?P + ?Q + ?D + ?U = ?n" by (rule label_sum_three)
  have split: "?pct ?P + ?pct ?Q + ?pct ?D = ?pct (?P + ?Q + ?D)"
    by (simp add: add_divide_distrib distrib_left)
  have bound: "0 \<le> ?pct k \<and> ?pct k \<le> 100" if "k \<le> ?n" for k
  proof -
    from that have "rat_of_nat k \<le> of_nat ?n" by (simp only: of_nat_le_iff)
    then show ?thesis using n by (simp add: divide_le_eq)
  qed
  have "?U = 0" using assms(2) by (simp add: filter_empty_conv)
  with sum have "?P + ?Q + ?D = ?n" by linarith
  then have exact: "?pct ?P + ?pct ?Q + ?pct ?D = 100"
    using n by (simp only: split) simp
  have P: "?P \<le> ?n" and Q: "?Q \<le> ?n" and D: "?D \<le> ?n"
    by (rule label_sum_le)+
  show ?thesis
    using get_nps_distribution_nonempty [OF assms(1)] bound [OF P] bound [OF Q] bound [OF D]
      exact
    by blast
qed

theorem nps_distribution_percentages_witness:
  "[labelled ''Promoter'', labelled ''Neutral''] \<noteq> []
   \<and> NPS_Label (labelled ''Promoter'') = Some ''Promoter''
   \<and> NPS_Label (labelled ''Neutral'') = Some ''Neutral''
   \<and> (\<exists>p q d. get_nps_distribution [labelled ''Promoter'', labelled ''Neutral'']
          = \<lparr>Promoters = Fin p, Passives = Fin q, Detractors = Fin d\<rparr>
        \<and> 0 \<le> p \<and> p \<le> 100 \<and> 0 \<le> q \<and> q \<le> 100 \<and> 0 \<le> d \<and> d \<le> 100
        \<and> p + q + d = 100)"
proof -
  have fields: "NPS_Label (labelled ''Promoter'') = Some ''Promoter''
      \<and> NPS_Label (labelled ''Neutral'') = Some ''Neutral''"
    by (simp add: labelled_def blank_row_def)
  then have labels: "\<forall>r \<in> set [labelled ''Promoter'', labelled ''Neutral''].
      NPS_Label r \<in> {Some ''Promoter'', Some ''Neutral'', Some ''Detractor''}"
    by simp
  have nonempty: "[labelled ''Promoter'', labelled ''Neutral''] \<noteq> []" by simp
  show ?thesis
    using nps_distribution_percentages [OF nonempty labels] nonempty fields
    by blast
qed

text \<open>
  Claim C3, as the code has it. On the table without rows the division is not guarded:
  each percentage is the floating-point quotient \<open>0 / 0\<close> times 100, which is \<open>nan\<close>. The
  call returns this value; it does not raise.
\<close>

theorem nps_distribution_empty:
  "get_nps_distribution [] = \<lparr>Promoters = NaN, Passives = NaN, Detractors = NaN\<rparr>"
  by (simp add: get_nps_distribution_def label_sum_def np_true_divide_def)

text \<open>None of the three values is zero.\<close>

theorem nps_distribution_empty_counterexample:
  "Promoters (get_nps_distribution []) \<noteq> Fin 0
   \<and> Passives (get_nps_distribution []) \<noteq> Fin 0
   \<and> Detractors (get_nps_distribution []) \<noteq> Fin 0"
  by (simp add: get_nps_distribution_def label_sum_def np_true_divide_def)

section \<open>Rounding to binary64\<close>

text \<open>Rounding to an integer keeps a value between two integers between them.\<close>

lemma rint_bounds:
  assumes "of_int a \<le> x" and "x \<le> of_int b"
  shows "a \<le> rint x \<and> rint x \<le> b"
proof -
  have lo: "a \<le> \<lfloor>x\<rfloor>" using assms(1) by (simp add: le_floor_iff)
  have hi: "\<lfloor>x\<rfloor> \<le> b" using assms(2) by (simp add: floor_le_iff)
  show ?thesis
  proof (cases "\<lfloor>x\<rfloor> = b")
    case True
    then have "x - of_int \<lfloor>x\<rfloor> \<le> 0" using assms(2) by simp
    then have "x - of_int \<lfloor>x\<rfloor> < 1 / 2" by linarith
    then show ?thesis using lo True by (simp add: rint_def Let_def)
  next
    case False
    with hi have "\<lfloor>x\<rfloor> + 1 \<le> b" by linarith
    then show ?thesis using lo hi by (simp add: rint_def Let_def)
  qed
qed

text \<open>It moves a value by at most one half.\<close>

lemma rint_error: "\<bar>of_int (rint x) - x\<bar> \<le> 1 / 2"
proof -
  have "of_int \<lfloor>x\<rfloor> \<le> x" and "x < of_int \<lfloor>x\<rfloor> + 1" by linarith+
  then show ?thesis by (auto simp: rint_def Let_def)
qed

text \<open>The computed exponent is not too large: \<open>2 ^ ilog2 x \<le> \<bar>x\<bar>\<close>.\<close>

lemma ilog2_lower:
  assumes "x \<noteq> 0"
  shows "2 powi (ilog2 x) \<le> \<bar>x\<bar>"
proof -
  obtain a b where q: "quotient_of \<bar>x\<bar> = (a, b)" by (cases "quotient_of \<bar>x\<bar>")
  then have x: "\<bar>x\<bar> = of_int a / of_int b" and b: "0 < b"
    by (simp_all add: quotient_of_div quotient_of_denom_pos)
  have ax: "0 < \<bar>x\<bar>" using assms by simp
  have a: "0 < a"
  proof (rule ccontr)
    assume "\<not> 0 < a"
    then have "rat_of_int a \<le> 0" by simp
    then have "rat_of_int a / of_int b \<le> 0" using b by (simp add: divide_le_0_iff)
    then show False using ax x by simp
  qed
  let ?d = "bitlen a - bitlen b"
  have il: "ilog2 x = (if 2 powi ?d \<le> \<bar>x\<bar> then ?d else ?d - 1)"
    by (simp add: ilog2_def q Let_def)
  show ?thesis
  proof (cases "2 powi ?d \<le> \<bar>x\<bar>")
    case True
    then show ?thesis by (simp add: il)
  next
    case False
    have la: "1 \<le> bitlen a" using a by (simp add: bitlen_alt_def)
    have "2 ^ nat (bitlen a - 1) \<le> a" and bb: "b < 2 ^ nat (bitlen b)"
      using bitlen_bounds [OF a] bitlen_bounds [OF b] by simp_all
    then have "rat_of_int (2 ^ nat (bitlen a - 1)) \<le> of_int a"
      by (simp only: of_int_le_iff)
    then have alo: "(2::rat) powi (bitlen a - 1) \<le> of_int a"
      using la by (simp add: power_int_def)
    from bb have "rat_of_int b < of_int (2 ^ nat (bitlen b))"
      by (simp only: of_int_less_iff)
    then have bhi: "rat_of_int b \<le> 2 powi (bitlen b)"
      using bitlen_nonneg [of b] by (simp add: power_int_def)
    have "(2::rat) powi (?d - 1) = 2 powi (bitlen a - 1) / 2 powi (bitlen b)"
      by (simp add: power_int_diff)
    also have "\<dots> \<le> of_int a / 2 powi (bitlen b)"
      using alo by (simp add: divide_right_mono)
    also have "\<dots> \<le> of_int a / of_int b"
      using bhi a b by (simp add: divide_left_mono)
    finally show ?thesis using False by (simp add: il x)
  qed
qed

lemma ilog2_le:
  assumes "x \<noteq> 0" and "\<bar>x\<bar> < 2 powi (k + 1)"
  shows "ilog2 x \<le> k"
proof (rule ccontr)
  assume "\<not> ilog2 x \<le> k"
  then have "k + 1 \<le> ilog2 x" by simp
  then have "(2::rat) powi (k + 1) \<le> 2 powi (ilog2 x)"
    by (intro power_int_increasing) simp_all
  also have "\<dots> \<le> \<bar>x\<bar>" using assms(1) by (rule ilog2_lower)
  finally show False using assms(2) by simp
qed

text \<open>
  A number between two integers of size at most \<open>2 ^ k\<close>, \<open>k \<le> 52\<close>, is rounded to a
  finite number between the same integers, at most \<open>2 ^ k / 2 ^ 53\<close> away.
\<close>

lemma binary64_enclosed:
  assumes lo: "of_int lo \<le> x" and hi: "x \<le> of_int hi"
    and blo: "- (2 ^ k) \<le> lo" and bhi: "hi \<le> 2 ^ k" and k: "k \<le> 52"
  shows "\<exists>r. binary64 x = Fin r \<and> of_int lo \<le> r \<and> r \<le> of_int hi
           \<and> \<bar>r - x\<bar> \<le> 2 ^ k / 2 ^ 53"
proof (cases "x = 0")
  case True
  then show ?thesis using lo hi by (simp add: binary64_def)
next
  case False
  define q where "q = max (ilog2 x - 52) (- 1074)"
  define m where "m = nat (- q)"
  define y where "y = x / 2 powi q"
  define r where "r = rat_of_int (rint y) * 2 powi q"
  have "rat_of_int (- (2 ^ k)) \<le> of_int lo" and "rat_of_int hi \<le> of_int (2 ^ k)"
    using blo bhi by (simp_all only: of_int_le_iff)
  then have klo: "- (2 ^ k) \<le> rat_of_int lo" and khi: "rat_of_int hi \<le> 2 ^ k"
    by (simp_all only: of_int_minus of_int_power of_int_numeral)
  then have xk: "\<bar>x\<bar> \<le> 2 ^ k" using lo hi by linarith
  have "(0::rat) < 2 ^ k" by simp
  then have "\<bar>x\<bar> < 2 ^ k * 2" using xk by linarith
  then have "\<bar>x\<bar> < 2 powi (int k + 1)"
    by (simp add: power_int_add)
  then have "ilog2 x \<le> int k" using False by (intro ilog2_le)
  then have qk: "q \<le> int k - 52" using k by (simp add: q_def)
  then have q0: "q \<le> 0" using k by simp
  have pq: "(2::rat) powi q = 1 / 2 ^ m"
    using q0 by (simp add: power_int_def m_def field_simps)
  have y: "y = x * 2 ^ m" by (simp add: y_def pq)
  have "rat_of_int (lo * 2 ^ m) \<le> y" and "y \<le> rat_of_int (hi * 2 ^ m)"
    using lo hi by (simp_all add: y)
  then have "lo * 2 ^ m \<le> rint y \<and> rint y \<le> hi * 2 ^ m"
    by (rule rint_bounds)
  then have "rat_of_int (lo * 2 ^ m) \<le> of_int (rint y)"
    and "rat_of_int (rint y) \<le> of_int (hi * 2 ^ m)"
    by (simp_all only: of_int_le_iff)
  then have rlo: "of_int lo \<le> r" and rhi: "r \<le> of_int hi"
    by (simp_all add: r_def pq field_simps)
  have "\<bar>r\<bar> \<le> 2 ^ k"
    using rlo rhi klo khi by linarith
  also have "(2::rat) ^ k < 2 ^ 1024"
    using k by (intro power_strict_increasing) simp_all
  finally have no_overflow: "\<not> 2 powi 1024 \<le> \<bar>r\<bar>" by simp
  have b64: "binary64 x = Fin r"
    using False no_overflow by (simp add: binary64_def Let_def q_def [symmetric] y_def [symmetric]
        r_def [symmetric])
  have "r - x = (of_int (rint y) - y) * 2 powi q"
    by (simp add: r_def y_def algebra_simps)
  then have "\<bar>r - x\<bar> = \<bar>of_int (rint y) - y\<bar> * 2 powi q"
    by (simp add: abs_mult)
  also have "\<dots> \<le> 1 / 2 * 2 powi q"
    by (intro mult_right_mono rint_error) simp
  also have "(2::rat) powi q \<le> 2 powi (int k - 52)"
    using qk by (intro power_int_increasing) simp_all
  finally have "\<bar>r - x\<bar> \<le> 1 / 2 * 2 powi (int k - 52)" by simp
  also have "1 / 2 * (2::rat) powi (int k - 52) = 2 ^ k / 2 ^ 53"
    by (simp add: power_int_diff)
  finally show ?thesis using b64 rlo rhi by blast
qed

lemma binary64_unit:
  assumes "0 \<le> x" and "x \<le> 1"
  shows "\<exists>r. binary64 x = Fin r \<and> 0 \<le> r \<and> r \<le> 1 \<and> \<bar>r - x\<bar> \<le> 1 / 2 ^ 53"
  using binary64_enclosed [of 0 x 1 0] assms by simp

lemma binary64_within:
  assumes "- of_int b \<le> x" and "x \<le> of_int b" and "0 \<le> b" and "b \<le> 2 ^ k" and "k \<le> 52"
  shows "\<exists>r. binary64 x = Fin r \<and> - of_int b \<le> r \<and> r \<le> of_int b
           \<and> \<bar>r - x\<bar> \<le> 2 ^ k / 2 ^ 53"
  using binary64_enclosed [of "- b" x b k] assms by simp

text \<open>
  The chain of operations of the score, from the two counts: every intermediate
  result is finite and bounded, the integer that is divided by 10 is at most 1000 in
  size, and the rounding errors add up to less than 0.001 beyond the half unit of the
  first decimal place.
\<close>

lemma nps_score_steps:
  assumes n: "0 < n" and P: "P \<le> n" and D: "D \<le> n"
  shows "\<exists>s m. np_round (d_scale (d_minus (binary64 (of_nat P / of_nat n))
                                            (binary64 (of_nat D / of_nat n))) 100) 1 = Fin s
           \<and> binary64 (of_int m / 10) = Fin s \<and> - 1000 \<le> m \<and> m \<le> 1000
           \<and> - 100 \<le> s \<and> s \<le> 100
           \<and> \<bar>s - (100 * of_nat P / of_nat n - 100 * of_nat D / of_nat n)\<bar> \<le> 51 / 1000"
proof -
  define p where "p = rat_of_nat P / of_nat n"
  define d where "d = rat_of_nat D / of_nat n"
  have n': "0 < rat_of_nat n" using n by simp
  have "rat_of_nat P \<le> of_nat n" and "rat_of_nat D \<le> of_nat n"
    using P D by (simp_all only: of_nat_le_iff)
  then have p: "0 \<le> p" "p \<le> 1" and d: "0 \<le> d" "d \<le> 1"
    using n' by (simp_all add: p_def d_def divide_le_eq)
  obtain a where a: "binary64 p = Fin a" "0 \<le> a" "a \<le> 1" "\<bar>a - p\<bar> \<le> 1 / 2 ^ 53"
    using binary64_unit [OF p] by blast
  obtain b where b: "binary64 d = Fin b" "0 \<le> b" "b \<le> 1" "\<bar>b - d\<bar> \<le> 1 / 2 ^ 53"
    using binary64_unit [OF d] by blast
  have "- of_int 1 \<le> a - b" and "a - b \<le> of_int 1" using a b by simp_all
  from binary64_within [OF this, of 0]
  obtain c where c: "binary64 (a - b) = Fin c" "- 1 \<le> c" "c \<le> 1"
      "\<bar>c - (a - b)\<bar> \<le> 1 / 2 ^ 53"
    by auto
  have "- of_int 100 \<le> c * 100" and "c * 100 \<le> of_int 100" using c by simp_all
  from binary64_within [OF this, of 7]
  obtain x where x: "binary64 (c * 100) = Fin x" "- 100 \<le> x" "x \<le> 100"
      "\<bar>x - c * 100\<bar> \<le> 2 ^ 7 / 2 ^ 53"
    by auto
  have "- of_int 1000 \<le> x * 10" and "x * 10 \<le> of_int 1000" using x by simp_all
  from binary64_within [OF this, of 10]
  obtain y where y: "binary64 (x * 10) = Fin y" "- 1000 \<le> y" "y \<le> 1000"
      "\<bar>y - x * 10\<bar> \<le> 2 ^ 10 / 2 ^ 53"
    by auto
  define m where "m = rint y"
  define z where "z = rat_of_int m / 10"
  have "of_int (- 1000) \<le> y" and "y \<le> of_int 1000" using y by simp_all
  then have "- 1000 \<le> rint y \<and> rint y \<le> 1000" by (rule rint_bounds)
  then have m: "- 1000 \<le> m" "m \<le> 1000" by (simp_all add: m_def)
  then have "rat_of_int (- 1000) \<le> of_int m" and "rat_of_int m \<le> of_int 1000"
    by (simp_all only: of_int_le_iff)
  then have z: "- 100 \<le> z" "z \<le> 100" by (simp_all add: z_def)
  have my: "\<bar>rat_of_int m - y\<bar> \<le> 1 / 2" unfolding m_def by (rule rint_error)
  have mz: "rat_of_int m = 10 * z" by (simp add: z_def)
  have "- of_int 100 \<le> z" and "z \<le> of_int 100"
    using z by simp_all
  from binary64_within [OF this, of 7]
  obtain s where s: "binary64 z = Fin s" "- 100 \<le> s" "s \<le> 100"
      "\<bar>s - z\<bar> \<le> 2 ^ 7 / 2 ^ 53"
    by auto
  have run: "np_round (d_scale (d_minus (binary64 p) (binary64 d)) 100) 1 = Fin s"
    by (simp add: np_round_def d_scale_def d_minus_def a b c x y s m_def [symmetric]
        z_def [symmetric])
  have ea: "\<bar>a - p\<bar> \<le> 1 / 9007199254740992" and eb: "\<bar>b - d\<bar> \<le> 1 / 9007199254740992"
    and ec: "\<bar>c - (a - b)\<bar> \<le> 1 / 9007199254740992"
    and ex: "\<bar>x - c * 100\<bar> \<le> 1 / 70368744177664"
    and ey: "\<bar>y - x * 10\<bar> \<le> 1 / 8796093022208"
    and es: "\<bar>s - z\<bar> \<le> 1 / 70368744177664"
    using a(4) b(4) c(4) x(4) y(4) s(4) by simp_all
  have near: "\<bar>s - (100 * p - 100 * d)\<bar> \<le> 51 / 1000"
    using ea eb ec ex ey my mz es by linarith
  have "100 * rat_of_nat P / of_nat n - 100 * of_nat D / of_nat n = 100 * p - 100 * d"
    by (simp add: p_def d_def)
  then show ?thesis
    using run s m near unfolding p_def [symmetric] d_def [symmetric] z_def by metis
qed

section \<open>Properties of the NPS score\<close>

text \<open>
  Claim C8, as the code has it. On a table with at least one row the NPS score is a
  number with one decimal place: the binary64 number nearest to \<open>m / 10\<close> for an
  integer \<open>m\<close> between -1000 and 1000, so a value between -100 and 100. It is within
  0.051 of the Promoters percentage minus the Detractors percentage of the NPS
  distribution of the same table, and in general not equal to it. On the table without
  rows it is \<open>nan\<close>.
\<close>

theorem nps_score_near_difference:
  "(df \<noteq> [] \<longrightarrow>
      (\<exists>s m p d. calculate_nps_score df = Fin s
         \<and> binary64 (of_int m / 10) = Fin s \<and> - 1000 \<le> m \<and> m \<le> 1000
         \<and> - 100 \<le> s \<and> s \<le> 100
         \<and> Promoters (get_nps_distribution df) = Fin p
         \<and> Detractors (get_nps_distribution df) = Fin d
         \<and> \<bar>s - (p - d)\<bar> \<le> 51 / 1000))
   \<and> (df = [] \<longrightarrow> calculate_nps_score df = NaN)"
proof (cases "df = []")
  case True
  then show ?thesis
    by (simp add: calculate_nps_score_def label_mean_def d_minus_def d_scale_def np_round_def)
next
  case False
  let ?n = "length df"
  let ?P = "label_sum ''Promoter'' df" and ?D = "label_sum ''Detractor'' df"
  have n: "0 < ?n" using False by simp
  have score: "calculate_nps_score df =
      np_round (d_scale (d_minus (binary64 (of_nat ?P / of_nat ?n))
                                 (binary64 (of_nat ?D / of_nat ?n))) 100) 1"
    using False by (simp add: calculate_nps_score_def label_mean_def Let_def)
  obtain s m where s: "calculate_nps_score df = Fin s" "binary64 (of_int m / 10) = Fin s"
      "- 1000 \<le> m" "m \<le> 1000" "- 100 \<le> s" "s \<le> 100"
      "\<bar>s - (100 * of_nat ?P / of_nat ?n - 100 * of_nat ?D / of_nat ?n)\<bar> \<le> 51 / 1000"
    using nps_score_steps [OF n label_sum_le label_sum_le, of "''Promoter''" "''Detractor''"]
    unfolding score by blast
  have "Promoters (get_nps_distribution df) = Fin (100 * of_nat ?P / of_nat ?n)"
    and "Detractors (get_nps_distribution df) = Fin (100 * of_nat ?D / of_nat ?n)"
    using False by (simp_all add: get_nps_distribution_nonempty)
  then show ?thesis using s False by blast
qed

theorem nps_score_near_difference_witness:
  "[labelled ''Promoter'', labelled ''Neutral'', labelled ''Neutral''] \<noteq> []
   \<and> (\<exists>s m p d.
         calculate_nps_score [labelled ''Promoter'', labelled ''Neutral'', labelled ''Neutral'']
           = Fin s
         \<and> binary64 (of_int m / 10) = Fin s \<and> - 1000 \<le> m \<and> m \<le> 1000
         \<and> - 100 \<le> s \<and> s \<le> 100
         \<and> Promoters (get_nps_distribution
              [labelled ''Promoter'', labelled ''Neutral'', labelled ''Neutral'']) = Fin p
         \<and> Detractors (get_nps_distribution
              [labelled ''Promoter'', labelled ''Neutral'', labelled ''Neutral'']) = Fin d
         \<and> \<bar>s - (p - d)\<bar> \<le> 51 / 1000)"
proof -
  have nonempty: "[labelled ''Promoter'', labelled ''Neutral'', labelled ''Neutral''] \<noteq> []"
    by simp
  show ?thesis
    using nps_score_near_difference
      [of "[labelled ''Promoter'', labelled ''Neutral'', labelled ''Neutral'']"] nonempty
    by blast
qed

text \<open>
  The two are not equal: of three rows with one promoter and no detractor the score
  is 33.3 (the binary64 number nearest to it), the difference of the exact percentages
  is 100/3, and the difference of the percentages as binary64 computes them is
  33.33333333333333.
\<close>

theorem nps_score_exact_counterexample:
  "calculate_nps_score [labelled ''Promoter'', labelled ''Neutral'', labelled ''Neutral'']
     = binary64 (333 / 10)
   \<and> f_minus
       (Promoters (get_nps_distribution
          [labelled ''Promoter'', labelled ''Neutral'', labelled ''Neutral'']))
       (Detractors (get_nps_distribution
          [labelled ''Promoter'', labelled ''Neutral'', labelled ''Neutral'']))
     = Fin (100 / 3)
   \<and> binary64 (333 / 10) \<noteq> Fin (100 / 3)
   \<and> d_minus
       (d_scale (label_mean ''Promoter''
          [labelled ''Promoter'', labelled ''Neutral'', labelled ''Neutral'']) 100)
       (d_scale (label_mean ''Detractor''
          [labelled ''Promoter'', labelled ''Neutral'', labelled ''Neutral'']) 100)
     = Fin (2345624805922133 / 70368744177664)
   \<and> binary64 (333 / 10) \<noteq> Fin (2345624805922133 / 70368744177664)"
  by code_simp

text \<open>
  Nor is the score the rounded difference of the percentages. Of 48 rows with 7
  promoters and 4 detractors the exact difference is 6.25, and the score is 6.3, not
  the 6.2 of a tie rounded to even: the binary64 difference of the two means lies just
  above the tie. Of 48 rows with 2 promoters and 5 detractors the score is -6.2, while
  rounding the binary64 difference of the two percentages gives -6.3.
\<close>

lemma nps_score_7_4_37:
  "calculate_nps_score
     (replicate 7 (labelled ''Promoter'') @ replicate 4 (labelled ''Detractor'')
        @ replicate 37 (labelled ''Neutral''))
   = binary64 (63 / 10)"
  by code_simp

lemma nps_score_2_5_41:
  "calculate_nps_score
     (replicate 2 (labelled ''Promoter'') @ replicate 5 (labelled ''Detractor'')
        @ replicate 41 (labelled ''Neutral''))
   = binary64 (- 62 / 10)
   \<and> np_round
       (d_minus
          (d_scale (label_mean ''Promoter''
             (replicate 2 (labelled ''Promoter'') @ replicate 5 (labelled ''Detractor'')
                @ replicate 41 (labelled ''Neutral''))) 100)
          (d_scale (label_mean ''Detractor''
             (replicate 2 (labelled ''Promoter'') @ replicate 5 (labelled ''Detractor'')
                @ replicate 41 (labelled ''Neutral''))) 100)) 1
     = binary64 (- 63 / 10)"
  by code_simp


section \<open>Properties of the rating scores\<close>

text \<open>
  Claim C6. Loading gives every row and every rating column a score: 5, 4, 3, 2 or 1
  for the five phrases of \<^verbatim>\<open>rating_map\<close>, and the missing value for every other
  cell (a missing cell, the empty text, any other text, a number). The score is never
  zero, and loading keeps every row.
\<close>

theorem rating_scores_of_load:
  assumes "i < length rows"
  shows "rating_Score (load_and_process_data rows ! i) col =
           (if rating (rows ! i) col = Str ''5. Strongly Agree'' then Some 5
            else if rating (rows ! i) col = Str ''4. Agree'' then Some 4
            else if rating (rows ! i) col = Str ''3. Neither Agree nor Disagree'' then Some 3
            else if rating (rows ! i) col = Str ''2. Disagree'' then Some 2
            else if rating (rows ! i) col = Str ''1. Strongly Disagree'' then Some 1
            else None)
         \<and> rating_Score (load_and_process_data rows ! i) col \<noteq> Some 0
         \<and> length (load_and_process_data rows) = length rows"
proof -
  have score: "rating_Score (load_and_process_data rows ! i) col
      = series_map rating_map (rating (rows ! i) col)"
    using assms by (simp add: load_and_process_data_def)
  show ?thesis
  proof (cases "rating (rows ! i) col")
    case (Str s)
    then show ?thesis
      unfolding score by (simp add: rating_map_def load_and_process_data_def)
  next
    case (Num x)
    then show ?thesis unfolding score by (simp add: load_and_process_data_def)
  next
    case NA
    then show ?thesis unfolding score by (simp add: load_and_process_data_def)
  qed
qed

theorem rating_scores_of_load_witness:
  "0 < length [answered ''2024-01'' 9 (Str ''garbage''), answered ''2024-01'' 9 (Str ''5. Strongly Agree'')]
   \<and> rating_Score (load_and_process_data
        [answered ''2024-01'' 9 (Str ''garbage''), answered ''2024-01'' 9 (Str ''5. Strongly Agree'')] ! 0)
        Questions = None"
  using rating_scores_of_load
    [of 0 "[answered ''2024-01'' 9 (Str ''garbage''), answered ''2024-01'' 9 (Str ''5. Strongly Agree'')]"
        Questions]
  by (simp add: answered_def blank_survey_row_def)


section \<open>Columns read by the correlation heatmap and the monthly trends\<close>

text \<open>
  Claim C1. The table whose correlation is computed holds the rating columns
  themselves, not the score columns: for a loaded response that answers every rating
  with \<^verbatim>\<open>5. Strongly Agree\<close> it holds that text seven times, where the columns of the
  specification hold the score 5.
\<close>

theorem correlation_reads_rating_text:
  "correlation_input (load_and_process_data [answered ''2024-01'' 9 (Str ''5. Strongly Agree'')])
     = [[Num 9, Str ''5. Strongly Agree'', Str ''5. Strongly Agree'', Str ''5. Strongly Agree'',
         Str ''5. Strongly Agree'', Str ''5. Strongly Agree'', Str ''5. Strongly Agree'',
         Str ''5. Strongly Agree'']]
   \<and> select_columns (load_and_process_data [answered ''2024-01'' 9 (Str ''5. Strongly Agree'')])
        spec_score_metrics
     = [[Num 9, Num 5, Num 5, Num 5, Num 5, Num 5, Num 5, Num 5]]"
  by (simp add: correlation_input_def select_columns_def metrics_def spec_score_metrics_def
      load_and_process_data_def answered_def blank_survey_row_def numeric_cell_def rating_map_def)

text \<open>
  Claim C4. The monthly means are taken of the rating columns themselves as well: on
  the same kind of loaded response the aggregation is refused, and no mean of a score
  is computed.
\<close>

theorem monthly_trends_reads_rating_text:
  "create_monthly_trends
     (load_and_process_data [answered ''2024-01'' 8 (Str ''5. Strongly Agree'')])
   = Inl TypeError"
  by (simp add: create_monthly_trends_def group_keys_def aggregate_group_def mean_cells_def
      load_and_process_data_def answered_def blank_survey_row_def)

text \<open>
  On responses with an NPS value and no rating, the months come out in ascending order
  with the mean NPS of each.
\<close>

lemma monthly_trends_example:
  "create_monthly_trends
     (load_and_process_data
        [answered ''2024-01'' 8 NA, answered ''2024-01'' 10 NA, answered ''2024-02'' 6 NA])
   = Inr [(''2024-01'', \<lparr>mean_NPS = Fin 9, mean_Ambience_And_Atmosphere = NaN,
                          mean_Curriculum_and_Activities = NaN, mean_Value_For_Money = NaN\<rparr>),
          (''2024-02'', \<lparr>mean_NPS = Fin 6, mean_Ambience_And_Atmosphere = NaN,
                          mean_Curriculum_and_Activities = NaN, mean_Value_For_Money = NaN\<rparr>)]"
  by code_simp


section \<open>Properties of the category counts\<close>

text \<open>
  Claim C5. On the rows of the example, \<^verbatim>\<open>a, b\<close> and \<^verbatim>\<open>"c"\<close> in the first category
  column and \<^verbatim>\<open>nan\<close> and the empty text in the second, the pooled tokens are \<open>a\<close>,
  \<open>b\<close> with the blank in front of it, and \<open>c\<close>: whitespace is not stripped from a
  token.
\<close>

theorem feedback_categories_keep_whitespace:
  "fst (pool_categories
          [tagged (Some ''a, b'') (Some ''nan''),
           tagged (Some [double_quote, CHR ''c'', double_quote]) (Some '''')])
     = [''a'', '' b'', ''c'']
   \<and> map_of (fst (analyze_feedback_categories
          [tagged (Some ''a, b'') (Some ''nan''),
           tagged (Some [double_quote, CHR ''c'', double_quote]) (Some '''')])) '' b''
     = Some 1
   \<and> map_of (fst (analyze_feedback_categories
          [tagged (Some ''a, b'') (Some ''nan''),
           tagged (Some [double_quote, CHR ''c'', double_quote]) (Some '''')])) ''b''
     = None"
  by code_simp

text \<open>
  Claim C7. The top concerns count the token \<^verbatim>\<open>nan\<close>: the improvement field
  \<^verbatim>\<open>a, nan\<close> gives the two tokens \<open>a\<close> and \<open>nan\<close>, one each.
\<close>

theorem top_concerns_count_nan:
  "map_of (get_top_concerns [tagged None (Some ''a, nan'')]) ''nan'' = Some 1
   \<and> map_of (get_top_concerns [tagged None (Some ''a, nan'')]) ''a'' = Some 1"
  by code_simp


section \<open>The table after a call\<close>

text \<open>What the operations on the table return and leave.\<close>

lemma run_len [simp]: "run_state len df = (length df, df)"
  by (simp add: len_def)

lemma run_column [simp]: "run_state (column field) df = (map field df, df)"
  by (simp add: column_def)

lemma run_columns [simp]: "run_state (columns cols) df = (select_columns df cols, df)"
  by (simp add: columns_def)

lemma run_whole_table [simp]: "run_state whole_table df = (df, df)"
  by (simp add: whole_table_def)

lemma run_assign_column [simp]:
  "run_state (assign_column store values) df = ((), map (\<lambda>(r, v). store r v) (zip df values))"
  by (simp add: assign_column_def)

text \<open>Assigning values computed row by row.\<close>

lemma map_zip_same: "map h (zip xs (map g xs)) = map (\<lambda>r. h (r, g r)) xs"
  by (induction xs) simp_all

lemma map_zip_maps: "map h (zip (map f xs) (map g xs)) = map (\<lambda>r. h (f r, g r)) xs"
  by (induction xs) simp_all

text \<open>
  Each body returns what the function of the same name computes, where that function
  is defined above, and leaves the table it was given.
\<close>

lemma run_get_nps_distribution_body:
  "run_state get_nps_distribution_body df = (get_nps_distribution df, df)"
  by (simp add: get_nps_distribution_body_def get_nps_distribution_def label_sum_def Let_def
      filter_map comp_def)

lemma run_create_nps_distribution_chart_body:
  "snd (run_state create_nps_distribution_chart_body df) = df"
  by (simp add: create_nps_distribution_chart_body_def run_get_nps_distribution_body)

lemma run_create_correlation_heatmap_body:
  "run_state (create_correlation_heatmap_body corr) df = (corr (correlation_input df), df)"
  by (simp add: create_correlation_heatmap_body_def correlation_input_def)

lemma run_analyze_feedback_categories_body:
  "run_state analyze_feedback_categories_body df = analyze_feedback_categories df"
  by (simp add: analyze_feedback_categories_body_def analyze_feedback_categories_def
      category_counts_def pool_categories_def Let_def map_zip_same map_zip_maps comp_def)

lemma run_calculate_weekly_response_rate_body:
  "run_state (calculate_weekly_response_rate_body resample) df = (resample df, df)"
  by (simp add: calculate_weekly_response_rate_body_def)

lemma run_create_monthly_trends_body:
  "run_state create_monthly_trends_body df = (create_monthly_trends df, df)"
  by (simp add: create_monthly_trends_body_def create_monthly_trends_def)

lemma run_calculate_nps_score_body:
  "run_state calculate_nps_score_body df = (calculate_nps_score df, df)"
  by (simp add: calculate_nps_score_body_def calculate_nps_score_def series_mean_def
      label_mean_def label_sum_def Let_def filter_map comp_def)

lemma run_get_top_concerns_body:
  "run_state get_top_concerns_body df = (get_top_concerns df, df)"
  by (simp add: get_top_concerns_body_def get_top_concerns_def Let_def comp_def)

lemma run_create_nps_trend_body:
  "snd (run_state create_nps_trend_body df) = df"
  by (simp add: create_nps_trend_body_def)

lemma run_create_satisfaction_heatmap_body:
  "snd (run_state create_satisfaction_heatmap_body df) = df"
  by (simp add: create_satisfaction_heatmap_body_def)

lemma fill_present:
  "v \<noteq> None \<Longrightarrow> Some (fillna v) = v"
  by (cases v) (simp_all add: fillna_def)

text \<open>
  Claim C9, as the code has it. Every aggregator other than
  \<^verbatim>\<open>analyze_feedback_categories\<close> leaves the table as it was.
  \<^verbatim>\<open>analyze_feedback_categories\<close> replaces each missing cell of the two category columns
  by the empty text and changes nothing else, so it leaves the table as it was when
  no cell of these two columns is missing.
\<close>

theorem table_after_aggregator:
  "(a \<noteq> Analyze_feedback_categories \<longrightarrow> table_after corr resample a df = df)
   \<and> table_after corr resample Analyze_feedback_categories df =
       map (\<lambda>r. r\<lparr>NPS_Feedback_Categories := Some (fillna (NPS_Feedback_Categories r)),
                   Improvement_Feedback_Categories :=
                     Some (fillna (Improvement_Feedback_Categories r))\<rparr>) df
   \<and> ((\<forall>r \<in> set df. NPS_Feedback_Categories r \<noteq> None
                      \<and> Improvement_Feedback_Categories r \<noteq> None)
        \<longrightarrow> table_after corr resample Analyze_feedback_categories df = df)"
proof -
  have other: "table_after corr resample a df = df" if "a \<noteq> Analyze_feedback_categories"
    using that
    by (cases a)
      (simp_all add: table_after_def run_get_nps_distribution_body
        run_create_nps_distribution_chart_body run_create_correlation_heatmap_body
        run_calculate_weekly_response_rate_body run_create_monthly_trends_body
        run_calculate_nps_score_body run_get_top_concerns_body run_create_nps_trend_body
        run_create_satisfaction_heatmap_body split_def)
  have filled: "table_after corr resample Analyze_feedback_categories df =
       map (\<lambda>r. r\<lparr>NPS_Feedback_Categories := Some (fillna (NPS_Feedback_Categories r)),
                   Improvement_Feedback_Categories :=
                     Some (fillna (Improvement_Feedback_Categories r))\<rparr>) df"
    by (simp add: table_after_def run_analyze_feedback_categories_body
        analyze_feedback_categories_def pool_categories_def Let_def comp_def split_def)
  have same: "table_after corr resample Analyze_feedback_categories df = df"
    if "\<forall>r \<in> set df. NPS_Feedback_Categories r \<noteq> None
                      \<and> Improvement_Feedback_Categories r \<noteq> None"
  proof -
    have "map (\<lambda>r. r\<lparr>NPS_Feedback_Categories := Some (fillna (NPS_Feedback_Categories r)),
                   Improvement_Feedback_Categories :=
                     Some (fillna (Improvement_Feedback_Categories r))\<rparr>) df = map (\<lambda>r. r) df"
      using that by (intro map_cong refl) (simp add: fill_present)
    then show ?thesis unfolding filled by simp
  qed
  show ?thesis using other filled same by blast
qed

theorem table_after_aggregator_witness:
  "Get_nps_distribution \<noteq> Analyze_feedback_categories
   \<and> table_after id length Get_nps_distribution [tagged (Some ''a, b'') (Some ''c'')]
       = [tagged (Some ''a, b'') (Some ''c'')]
   \<and> NPS_Feedback_Categories (tagged (Some ''a, b'') (Some ''c'')) \<noteq> None
   \<and> Improvement_Feedback_Categories (tagged (Some ''a, b'') (Some ''c'')) \<noteq> None
   \<and> table_after id length Analyze_feedback_categories [tagged (Some ''a, b'') (Some ''c'')]
       = [tagged (Some ''a, b'') (Some ''c'')]"
proof -
  have present: "\<forall>r \<in> set [tagged (Some ''a, b'') (Some ''c'')].
         NPS_Feedback_Categories r \<noteq> None \<and> Improvement_Feedback_Categories r \<noteq> None"
    by (simp add: tagged_def blank_row_def)
  have fields: "NPS_Feedback_Categories (tagged (Some ''a, b'') (Some ''c'')) \<noteq> None
      \<and> Improvement_Feedback_Categories (tagged (Some ''a, b'') (Some ''c'')) \<noteq> None"
    by (simp add: tagged_def blank_row_def)
  have distinct: "Get_nps_distribution \<noteq> Analyze_feedback_categories" by simp
  show ?thesis
    using table_after_aggregator
      [of Get_nps_distribution id length "[tagged (Some ''a, b'') (Some ''c'')]"]
      present fields distinct
    by blast
qed

text \<open>A table with a missing category cell is changed by the call.\<close>

theorem analyze_feedback_categories_mutates_counterexample:
  "table_after id length Analyze_feedback_categories [tagged None (Some ''a'')]
     \<noteq> [tagged None (Some ''a'')]"
  by (simp add: table_after_def run_analyze_feedback_categories_body
      analyze_feedback_categories_def pool_categories_def tagged_def blank_row_def fillna_def)

end
